theory Spec2Isabelle
  imports Complex_Main
begin

section \<open>The simulation core of the Reach game\<close>

text \<open>
  The embedding follows \<^verbatim>\<open>src/presence.js\<close> and \<^verbatim>\<open>src/game.js\<close>. A JavaScript
  number is modelled as a real: every claim below is about the ideal arithmetic of the
  simulation, not about the rounding of IEEE doubles. An object is a record holding every
  field its constructor assigns, the constants included; a method takes the object and
  returns the updated one.
\<close>

subsection \<open>Presence\<close>

record Presence =
  x :: real
  y :: real
  radius :: real
  expandRate :: real
  retractRate :: real
  minRadius :: real
  maxRadius :: real
  expandDirection :: real
  targetRadius :: real
  radiusSmoothness :: real

text \<open>The constructor \<^verbatim>\<open>new Presence(x, y)\<close>.\<close>

definition Presence_new :: "real \<Rightarrow> real \<Rightarrow> Presence" where
  "Presence_new x0 y0 =
     \<lparr> x = x0, y = y0, radius = 0.15, expandRate = 0.12, retractRate = 0.18,
       minRadius = 0.05, maxRadius = 0.6, expandDirection = 0,
       targetRadius = 0.15, radiusSmoothness = 8 \<rparr>"

definition setExpandDirection :: "real \<Rightarrow> Presence \<Rightarrow> Presence" where
  "setExpandDirection direction p =
     p\<lparr>expandDirection := max (- 1) (min 1 direction)\<rparr>"

text \<open>
  \<^verbatim>\<open>Presence.update(dt)\<close> in its three statements: the branch on the direction that
  advances the target, the clamp of the target, the exponential smoothing of the radius.
\<close>

definition advanceTarget :: "real \<Rightarrow> Presence \<Rightarrow> Presence" where
  "advanceTarget dt p =
     (if expandDirection p > 0
      then p\<lparr>targetRadius := targetRadius p + expandRate p * expandDirection p * dt\<rparr>
      else if expandDirection p < 0
      then p\<lparr>targetRadius := targetRadius p + retractRate p * expandDirection p * dt\<rparr>
      else p)"

definition clampTarget :: "Presence \<Rightarrow> Presence" where
  "clampTarget p =
     p\<lparr>targetRadius := max (minRadius p) (min (maxRadius p) (targetRadius p))\<rparr>"

definition smoothRadius :: "real \<Rightarrow> Presence \<Rightarrow> Presence" where
  "smoothRadius dt p =
     (let t = 1 - exp (- radiusSmoothness p * dt)
      in p\<lparr>radius := radius p + (targetRadius p - radius p) * t\<rparr>)"

definition Presence_update :: "real \<Rightarrow> Presence \<Rightarrow> Presence" where
  "Presence_update dt p = smoothRadius dt (clampTarget (advanceTarget dt p))"

text \<open>
  \<^verbatim>\<open>getOverextension\<close>. Past the first test \<open>overAmount\<close> is positive, so where
  \<open>maxOver\<close> is zero the JavaScript quotient is \<open>+Infinity\<close> and \<^verbatim>\<open>Math.min(1, ...)\<close>
  gives 1; HOL's \<open>a / 0 = 0\<close> would hide that, so the case is written out.
\<close>

definition getOverextension :: "Presence \<Rightarrow> real \<Rightarrow> real" where
  "getOverextension p sustainableThreshold =
     (if radius p \<le> sustainableThreshold then 0
      else let overAmount = radius p - sustainableThreshold;
               maxOver = maxRadius p - sustainableThreshold
           in if maxOver = 0 then 1 else min 1 (overAmount / maxOver))"

subsection \<open>Presence.update in double arithmetic\<close>

text \<open>
  Whether the radius can pass its target depends on how the arithmetic rounds, so
  \<^verbatim>\<open>Presence.update\<close> is embedded a second time, with every operation rounded as
  JavaScript rounds it. A double is modelled by the real it denotes: \<open>fl\<close> gives the double
  nearest to its argument, with a significand of 53 bits, ties going to the even significand,
  and gradual underflow below \<open>2 powi (- 1022)\<close>. There is no infinity: \<open>fl\<close> is the
  rounding of IEEE 754 for magnitudes below \<open>2 ^ 1024\<close>.
\<close>

definition rne :: "real \<Rightarrow> int" where
  "rne z = (let f = \<lfloor>z\<rfloor>; r = z - of_int f
            in if r < 1 / 2 then f else if 1 / 2 < r then f + 1
               else if even f then f else f + 1)"

definition expo :: "real \<Rightarrow> int" where
  "expo v = max \<lfloor>log 2 \<bar>v\<bar>\<rfloor> (- 1022)"

definition ulp :: "real \<Rightarrow> real" where
  "ulp v = 2 powi (expo v - 52)"

definition fl :: "real \<Rightarrow> real" where
  "fl v = (if v = 0 then 0 else of_int (rne (v / ulp v)) * ulp v)"






subsection \<open>Game\<close>

datatype GameState = PLAYING | WON | FAILED

record Game =
  presence :: Presence
  state :: GameState
  time :: real
  gameTime :: real
  winTime :: real
  clarity :: real
  sustainableThreshold :: real
  thresholdDecayRate :: real
  clarityRecoveryRate :: real
  clarityDecayRate :: real
  clarityMinRecovery :: real
  failureClarity :: real
  fixedDt :: real
  accumulator :: real

text \<open>The constructor \<^verbatim>\<open>new Game()\<close>.\<close>

definition Game_new :: Game where
  "Game_new =
     \<lparr> presence = Presence_new 0.5 0.5, state = PLAYING, time = 0, gameTime = 0,
       winTime = 180, clarity = 1, sustainableThreshold = 0.4,
       thresholdDecayRate = 0.008, clarityRecoveryRate = 0.15, clarityDecayRate = 0.25,
       clarityMinRecovery = 0.3, failureClarity = 0.15, fixedDt = 1 / 60,
       accumulator = 0 \<rparr>"

text \<open>
  \<^verbatim>\<open>_fixedUpdate(dt, expandDirection)\<close>, one definition for each commented block of
  the method, composed in the order of the source.
\<close>

definition advanceGameTime :: "real \<Rightarrow> Game \<Rightarrow> Game" where
  "advanceGameTime dt g = g\<lparr>gameTime := gameTime g + dt\<rparr>"

definition updatePresence :: "real \<Rightarrow> real \<Rightarrow> Game \<Rightarrow> Game" where
  "updatePresence dt direction g =
     g\<lparr>presence := Presence_update dt (setExpandDirection direction (presence g))\<rparr>"

definition decayThreshold :: "real \<Rightarrow> Game \<Rightarrow> Game" where
  "decayThreshold dt g =
     g\<lparr>sustainableThreshold :=
         max 0.1 (sustainableThreshold g - thresholdDecayRate g * dt)\<rparr>"

definition updateClarity :: "real \<Rightarrow> Game \<Rightarrow> Game" where
  "updateClarity dt g =
     (let overextension = getOverextension (presence g) (sustainableThreshold g)
      in if overextension > 0
         then let decayAmount = clarityDecayRate g * overextension * dt
              in g\<lparr>clarity := max 0 (clarity g - decayAmount)\<rparr>
         else let targetClarity =
                    max (clarityMinRecovery g) (1 - (gameTime g / winTime g) * 0.3)
              in if clarity g < targetClarity
                 then g\<lparr>clarity := min targetClarity (clarity g + clarityRecoveryRate g * dt)\<rparr>
                 else g)"

definition checkWin :: "Game \<Rightarrow> Game" where
  "checkWin g = (if gameTime g \<ge> winTime g then g\<lparr>state := WON\<rparr> else g)"

definition checkFail :: "Game \<Rightarrow> Game" where
  "checkFail g = (if clarity g \<le> failureClarity g then g\<lparr>state := FAILED\<rparr> else g)"

definition fixedUpdate :: "real \<Rightarrow> real \<Rightarrow> Game \<Rightarrow> Game" where
  "fixedUpdate dt direction g =
     checkFail (checkWin (updateClarity dt (decayThreshold dt
       (updatePresence dt direction (advanceGameTime dt g)))))"

text \<open>
  The body of the \<^verbatim>\<open>while\<close> loop of \<^verbatim>\<open>update\<close>: one fixed tick, then the
  accumulator gives up one \<open>fixedDt\<close>.
\<close>

definition tick :: "real \<Rightarrow> Game \<Rightarrow> Game" where
  "tick direction g =
     (let g' = fixedUpdate (fixedDt g) direction g
      in g'\<lparr>accumulator := accumulator g' - fixedDt g'\<rparr>)"

text \<open>
  The loop itself. It runs for ever when \<open>fixedDt\<close> is not positive and the accumulator
  is at least \<open>fixedDt\<close>, so its result is an option and \<open>None\<close> is not returning.
\<close>

partial_function (option) drain :: "real \<Rightarrow> Game \<Rightarrow> Game option" where
  "drain direction g =
     (if accumulator g \<ge> fixedDt g then drain direction (tick direction g) else Some g)"

definition Game_update :: "real \<Rightarrow> real \<Rightarrow> Game \<Rightarrow> Game option" where
  "Game_update dt direction g =
     (if state g \<noteq> PLAYING then Some g
      else drain direction (g\<lparr>time := time g + dt, accumulator := accumulator g + dt\<rparr>))"

definition reset :: "Game \<Rightarrow> Game" where
  "reset g =
     g\<lparr>presence := Presence_new 0.5 0.5, state := PLAYING, time := 0, gameTime := 0,
       clarity := 1, sustainableThreshold := 0.4\<rparr>"

subsection \<open>Trajectories\<close>

text \<open>
  The \<open>overextension\<close> that \<^verbatim>\<open>_fixedUpdate\<close> computes: that of the advanced
  presence over the decayed threshold.
\<close>

definition overextensionOfTick :: "real \<Rightarrow> real \<Rightarrow> Game \<Rightarrow> real" where
  "overextensionOfTick dt direction g =
     (let g' = decayThreshold dt (updatePresence dt direction (advanceGameTime dt g))
      in getOverextension (presence g') (sustainableThreshold g'))"

text \<open>A run of fixed ticks, each with a direction of its own.\<close>

fun ticks_with :: "real list \<Rightarrow> Game \<Rightarrow> Game" where
  "ticks_with [] g = g"
| "ticks_with (d # ds) g = ticks_with ds (tick d g)"

text \<open>
  A sequence of \<^verbatim>\<open>update(dt, direction)\<close> calls, as the frame loop of
  \<^verbatim>\<open>src/main.js\<close> issues them; a call that does not return ends the sequence.
\<close>

fun run :: "(real \<times> real) list \<Rightarrow> Game \<Rightarrow> Game option" where
  "run [] g = Some g"
| "run ((dt, direction) # us) g =
     (case Game_update dt direction g of None \<Rightarrow> None | Some g' \<Rightarrow> run us g')"

text \<open>
  The constant fields as the constructors assign them. No method assigns them again.
\<close>

definition Presence_constants :: "Presence \<Rightarrow> bool" where
  "Presence_constants p \<longleftrightarrow>
     expandRate p = 0.12 \<and> retractRate p = 0.18 \<and> minRadius p = 0.05 \<and>
     maxRadius p = 0.6 \<and> radiusSmoothness p = 8"

definition Game_constants :: "Game \<Rightarrow> bool" where
  "Game_constants g \<longleftrightarrow>
     winTime g = 180 \<and> thresholdDecayRate g = 0.008 \<and> clarityRecoveryRate g = 0.15 \<and>
     clarityDecayRate g = 0.25 \<and> clarityMinRecovery g = 0.3 \<and> failureClarity g = 0.15 \<and>
     fixedDt g = 1 / 60 \<and> Presence_constants (presence g)"

text \<open>The ranges of the mutable scalars, kept by every tick.\<close>

definition in_range :: "Game \<Rightarrow> bool" where
  "in_range g \<longleftrightarrow>
     minRadius (presence g) \<le> radius (presence g) \<and>
     radius (presence g) \<le> maxRadius (presence g) \<and>
     0 \<le> clarity g \<and> clarity g \<le> 1 \<and>
     0.1 \<le> sustainableThreshold g \<and> sustainableThreshold g \<le> 1 \<and>
     0 \<le> gameTime g"

section \<open>Properties\<close>

subsection \<open>Projections of the steps\<close>

lemmas fixedUpdate_defs = fixedUpdate_def checkFail_def checkWin_def updateClarity_def
  decayThreshold_def updatePresence_def advanceGameTime_def

lemmas Presence_defs = Presence_update_def smoothRadius_def clampTarget_def advanceTarget_def
  setExpandDirection_def getOverextension_def

lemma state_checkFail:
  "state (checkFail g) = (if clarity g \<le> failureClarity g then FAILED else state g)"
  by (simp add: checkFail_def)

lemma state_checkWin:
  "state (checkWin g) = (if gameTime g \<ge> winTime g then WON else state g)"
  by (simp add: checkWin_def)

lemma checkFail_fields [simp]:
  "clarity (checkFail g) = clarity g" "gameTime (checkFail g) = gameTime g"
  "winTime (checkFail g) = winTime g" "failureClarity (checkFail g) = failureClarity g"
  by (simp_all add: checkFail_def)

lemma checkWin_fields [simp]:
  "clarity (checkWin g) = clarity g" "gameTime (checkWin g) = gameTime g"
  "winTime (checkWin g) = winTime g" "failureClarity (checkWin g) = failureClarity g"
  by (simp_all add: checkWin_def)

lemma fixedUpdate_state:
  "state (fixedUpdate dt d g) =
     (if clarity (fixedUpdate dt d g) \<le> failureClarity g then FAILED
      else if winTime g \<le> gameTime g + dt then WON else state g)"
proof -
  define X where
    "X = updateClarity dt (decayThreshold dt (updatePresence dt d (advanceGameTime dt g)))"
  have f: "fixedUpdate dt d g = checkFail (checkWin X)"
    by (simp add: fixedUpdate_def X_def)
  have X: "state X = state g" "failureClarity X = failureClarity g"
    "winTime X = winTime g" "gameTime X = gameTime g + dt"
    by (simp_all add: X_def updateClarity_def decayThreshold_def updatePresence_def
        advanceGameTime_def Let_def)
  show ?thesis
    unfolding f by (simp add: state_checkFail state_checkWin X)
qed

lemma fixedUpdate_kept [simp]:
  "time (fixedUpdate dt d g) = time g"
  "accumulator (fixedUpdate dt d g) = accumulator g"
  "fixedDt (fixedUpdate dt d g) = fixedDt g"
  "winTime (fixedUpdate dt d g) = winTime g"
  "thresholdDecayRate (fixedUpdate dt d g) = thresholdDecayRate g"
  "clarityRecoveryRate (fixedUpdate dt d g) = clarityRecoveryRate g"
  "clarityDecayRate (fixedUpdate dt d g) = clarityDecayRate g"
  "clarityMinRecovery (fixedUpdate dt d g) = clarityMinRecovery g"
  "failureClarity (fixedUpdate dt d g) = failureClarity g"
  by (simp_all add: fixedUpdate_defs Let_def)

lemma fixedUpdate_gameTime [simp]: "gameTime (fixedUpdate dt d g) = gameTime g + dt"
  by (simp add: fixedUpdate_defs Let_def)

lemma fixedUpdate_threshold [simp]:
  "sustainableThreshold (fixedUpdate dt d g) =
     max 0.1 (sustainableThreshold g - thresholdDecayRate g * dt)"
  by (simp add: fixedUpdate_defs Let_def)

lemma fixedUpdate_presence [simp]:
  "presence (fixedUpdate dt d g) = Presence_update dt (setExpandDirection d (presence g))"
  by (simp add: fixedUpdate_defs Let_def)

lemma Presence_update_kept [simp]:
  "expandRate (Presence_update dt p) = expandRate p"
  "retractRate (Presence_update dt p) = retractRate p"
  "minRadius (Presence_update dt p) = minRadius p"
  "maxRadius (Presence_update dt p) = maxRadius p"
  "radiusSmoothness (Presence_update dt p) = radiusSmoothness p"
  "expandDirection (Presence_update dt p) = expandDirection p"
  by (simp_all add: Presence_update_def smoothRadius_def clampTarget_def advanceTarget_def
      Let_def)

lemma setExpandDirection_kept [simp]:
  "expandRate (setExpandDirection d p) = expandRate p"
  "retractRate (setExpandDirection d p) = retractRate p"
  "minRadius (setExpandDirection d p) = minRadius p"
  "maxRadius (setExpandDirection d p) = maxRadius p"
  "radiusSmoothness (setExpandDirection d p) = radiusSmoothness p"
  "radius (setExpandDirection d p) = radius p"
  "targetRadius (setExpandDirection d p) = targetRadius p"
  by (simp_all add: setExpandDirection_def)

lemma tick_kept [simp]:
  "fixedDt (tick d g) = fixedDt g"
  "accumulator (tick d g) = accumulator g - fixedDt g"
  "time (tick d g) = time g"
  "winTime (tick d g) = winTime g"
  "gameTime (tick d g) = gameTime g + fixedDt g"
  "clarity (tick d g) = clarity (fixedUpdate (fixedDt g) d g)"
  "state (tick d g) = state (fixedUpdate (fixedDt g) d g)"
  "presence (tick d g) = presence (fixedUpdate (fixedDt g) d g)"
  "sustainableThreshold (tick d g) = sustainableThreshold (fixedUpdate (fixedDt g) d g)"
  by (simp_all add: tick_def Let_def)

lemma Game_constants_tick: "Game_constants (tick d g) = Game_constants g"
  by (simp add: Game_constants_def Presence_constants_def tick_def Let_def)

subsection \<open>The smoothing factor\<close>

lemma smooth_factor:
  "0 \<le> dt \<Longrightarrow> 0 \<le> k \<Longrightarrow> 0 \<le> 1 - exp (- k * dt) \<and> 1 - exp (- k * dt) < (1::real)"
  by (simp add: mult_nonneg_nonneg)

text \<open>A step of size \<open>t\<close> in \<open>[0, 1)\<close> from \<open>r\<close> toward \<open>T\<close> ends between the two, short of \<open>T\<close>.\<close>

lemma between:
  fixes r T t :: real
  assumes "0 \<le> t" "t < 1"
  shows "min r T \<le> r + (T - r) * t \<and> r + (T - r) * t \<le> max r T \<and>
         (r \<noteq> T \<longrightarrow> r + (T - r) * t \<noteq> T)"
proof -
  have ne: "r + (T - r) * t \<noteq> T" if "r \<noteq> T"
  proof
    assume "r + (T - r) * t = T"
    then have "(T - r) * (1 - t) = 0" by (simp add: algebra_simps)
    with that assms show False by simp
  qed
  define m where "m = (T - r) * t"
  have bounds: "min r T \<le> r + m \<and> r + m \<le> max r T"
  proof (cases "r \<le> T")
    case True
    have "0 \<le> m" unfolding m_def using True assms by (intro mult_nonneg_nonneg) simp_all
    moreover have "m \<le> T - r"
      unfolding m_def using mult_left_mono [of t 1 "T - r"] True assms by simp
    ultimately show ?thesis using True by linarith
  next
    case False
    have "m \<le> 0" unfolding m_def using False assms by (intro mult_nonpos_nonneg) simp_all
    moreover have "T - r \<le> m"
      unfolding m_def using mult_left_mono_neg [of t 1 "T - r"] False assms by simp
    ultimately show ?thesis using False by linarith
  qed
  from ne bounds show ?thesis unfolding m_def by blast
qed

subsection \<open>The loop of \<^verbatim>\<open>update\<close>\<close>

lemma drain_stop: "accumulator g < fixedDt g \<Longrightarrow> drain direction g = Some g"
  by (subst drain.simps) simp

lemma drain_step:
  "fixedDt g \<le> accumulator g \<Longrightarrow> drain direction g = drain direction (tick direction g)"
  by (subst drain.simps) simp

lemma floor_step:
  fixes a f :: real
  assumes "0 < f" and "nat \<lfloor>a / f\<rfloor> = Suc n"
  shows "f \<le> a" and "nat \<lfloor>(a - f) / f\<rfloor> = n"
proof -
  have "1 \<le> \<lfloor>a / f\<rfloor>" using assms(2) by linarith
  then have "1 \<le> a / f" by linarith
  then show "f \<le> a" using assms(1) by (simp add: le_divide_eq)
  have "(a - f) / f = a / f - 1" using assms(1) by (simp add: diff_divide_distrib)
  then have "\<lfloor>(a - f) / f\<rfloor> = \<lfloor>a / f\<rfloor> - 1" by simp
  then show "nat \<lfloor>(a - f) / f\<rfloor> = n" using assms(2) by linarith
qed

lemma floor_stop:
  fixes a f :: real
  assumes "0 < f" and "nat \<lfloor>a / f\<rfloor> = 0"
  shows "a < f"
proof -
  have "\<lfloor>a / f\<rfloor> \<le> 0" using assms(2) by linarith
  then have "a / f < 1" by linarith
  then show ?thesis using assms(1) by (simp add: divide_less_eq)
qed

text \<open>
  With a positive \<open>fixedDt\<close> the loop returns, after as many ticks as whole multiples of
  \<open>fixedDt\<close> fit into the accumulator, every one of them with the direction of the call.
\<close>

lemma drain_unroll_aux:
  "0 < fixedDt g \<Longrightarrow> nat \<lfloor>accumulator g / fixedDt g\<rfloor> = n \<Longrightarrow>
   drain d g = Some (ticks_with (replicate n d) g)"
proof (induction n arbitrary: g)
  case 0
  have "accumulator g < fixedDt g" using "0.prems" by (rule floor_stop)
  then have "drain d g = Some g" by (rule drain_stop)
  then show ?case by simp
next
  case (Suc n)
  have le: "fixedDt g \<le> accumulator g"
    using Suc.prems by (rule floor_step(1))
  have "nat \<lfloor>(accumulator g - fixedDt g) / fixedDt g\<rfloor> = n"
    using Suc.prems by (rule floor_step(2))
  then have n: "nat \<lfloor>accumulator (tick d g) / fixedDt (tick d g)\<rfloor> = n"
    by (simp only: tick_kept)
  have pos: "0 < fixedDt (tick d g)" using Suc.prems(1) by (simp only: tick_kept)
  have "drain d (tick d g) = Some (ticks_with (replicate n d) (tick d g))"
    using pos n by (rule Suc.IH)
  then show ?case using drain_step [OF le, of d] by simp
qed

lemma drain_unroll:
  "0 < fixedDt g \<Longrightarrow>
   drain d g = Some (ticks_with (replicate (nat \<lfloor>accumulator g / fixedDt g\<rfloor>) d) g)"
  by (rule drain_unroll_aux) simp_all

lemma update_unroll:
  "0 < fixedDt g \<Longrightarrow> state g = PLAYING \<Longrightarrow>
   Game_update dt d g =
     Some (ticks_with (replicate (nat \<lfloor>(accumulator g + dt) / fixedDt g\<rfloor>) d)
             (g\<lparr>time := time g + dt, accumulator := accumulator g + dt\<rparr>))"
  by (simp add: Game_update_def drain_unroll)

subsection \<open>Rounding to the nearest double\<close>













lemma expo_minus [simp]: "expo (- v) = expo v"
  by (simp add: expo_def)

lemma ulp_minus [simp]: "ulp (- v) = ulp v"
  by (simp add: ulp_def)


lemma ulp_nonneg [simp]: "0 \<le> ulp v"
  by (simp add: ulp_def)





lemma fl_0 [simp]: "fl 0 = 0"
  by (simp add: fl_def)




































subsection \<open>Claims about one tick\<close>

text \<open>
  C1, as the code has it. The claim says that a tick on which both terminal conditions
  hold ends in \<open>WON\<close>. The win check does come first, but the fail check after it is an
  \<^verbatim>\<open>if\<close> of its own, not an \<^verbatim>\<open>else\<close>: it runs on every tick and overwrites the
  state. So on a tick started in \<open>PLAYING\<close> on which \<open>gameTime\<close> has reached \<open>winTime\<close>
  and the clarity is at or below \<open>failureClarity\<close>, the state becomes \<open>FAILED\<close>; and a
  tick started in \<open>PLAYING\<close> ends in \<open>WON\<close> exactly when \<open>gameTime\<close> has reached
  \<open>winTime\<close> and the clarity is above \<open>failureClarity\<close>.
\<close>

theorem fixedUpdate_tie_fails:
  "state g = PLAYING \<Longrightarrow> winTime g \<noteq> 0 \<Longrightarrow>
   (let g' = fixedUpdate dt direction g in
     (gameTime g' \<ge> winTime g' \<and> clarity g' \<le> failureClarity g' \<longrightarrow> state g' = FAILED) \<and>
     (state g' = WON \<longleftrightarrow>
        gameTime g' \<ge> winTime g' \<and> \<not> clarity g' \<le> failureClarity g'))"
  by (simp add: Let_def fixedUpdate_state)

theorem fixedUpdate_tie_fails_witness:
  "state Game_new = PLAYING \<and> winTime Game_new \<noteq> 0 \<and>
   gameTime (fixedUpdate (1 / 60) 1
      (Game_new\<lparr>presence := Presence_new 0.5 0.5\<lparr>radius := 0.6, targetRadius := 0.6\<rparr>,
        gameTime := 180 - 1 / 60, clarity := 0.152, sustainableThreshold := 0.1\<rparr>))
     \<ge> winTime Game_new \<and>
   clarity (fixedUpdate (1 / 60) 1
      (Game_new\<lparr>presence := Presence_new 0.5 0.5\<lparr>radius := 0.6, targetRadius := 0.6\<rparr>,
        gameTime := 180 - 1 / 60, clarity := 0.152, sustainableThreshold := 0.1\<rparr>))
     \<le> failureClarity Game_new \<and>
   state (fixedUpdate (1 / 60) 1
      (Game_new\<lparr>presence := Presence_new 0.5 0.5\<lparr>radius := 0.6, targetRadius := 0.6\<rparr>,
        gameTime := 180 - 1 / 60, clarity := 0.152, sustainableThreshold := 0.1\<rparr>)) = FAILED \<and>
   gameTime (fixedUpdate (1 / 60) 1
      (Game_new\<lparr>presence := Presence_new 0.5 0.5\<lparr>radius := 0.6, targetRadius := 0.6\<rparr>,
        gameTime := 180 - 1 / 60, clarity := 0.5, sustainableThreshold := 0.1\<rparr>))
     \<ge> winTime Game_new \<and>
   \<not> clarity (fixedUpdate (1 / 60) 1
      (Game_new\<lparr>presence := Presence_new 0.5 0.5\<lparr>radius := 0.6, targetRadius := 0.6\<rparr>,
        gameTime := 180 - 1 / 60, clarity := 0.5, sustainableThreshold := 0.1\<rparr>))
     \<le> failureClarity Game_new \<and>
   state (fixedUpdate (1 / 60) 1
      (Game_new\<lparr>presence := Presence_new 0.5 0.5\<lparr>radius := 0.6, targetRadius := 0.6\<rparr>,
        gameTime := 180 - 1 / 60, clarity := 0.5, sustainableThreshold := 0.1\<rparr>)) = WON"
  using
    fixedUpdate_tie_fails [of
      "(Game_new\<lparr>presence := Presence_new 0.5 0.5\<lparr>radius := 0.6, targetRadius := 0.6\<rparr>,
        gameTime := 180 - 1 / 60, clarity := 0.152, sustainableThreshold := 0.1\<rparr>)" "1 / 60" 1]
    fixedUpdate_tie_fails [of
      "(Game_new\<lparr>presence := Presence_new 0.5 0.5\<lparr>radius := 0.6, targetRadius := 0.6\<rparr>,
        gameTime := 180 - 1 / 60, clarity := 0.5, sustainableThreshold := 0.1\<rparr>)" "1 / 60" 1]
  by (simp add: fixedUpdate_defs Presence_defs Game_new_def Presence_new_def Let_def)

text \<open>
  C1, the counterexample: a game in play at full radius over the floor of the threshold,
  one tick before \<open>winTime\<close>, with a clarity of 0.152. The tick brings \<open>gameTime\<close> to 180
  and the clarity below 0.15; both conditions hold and the state is \<open>FAILED\<close>, not
  \<open>WON\<close>.
\<close>

theorem fixedUpdate_tie_counterexample:
  "state (Game_new\<lparr>presence := Presence_new 0.5 0.5\<lparr>radius := 0.6, targetRadius := 0.6\<rparr>,
                  gameTime := 180 - 1 / 60, clarity := 0.152,
                  sustainableThreshold := 0.1\<rparr>) = PLAYING \<and>
   gameTime (fixedUpdate (1 / 60) 1
      (Game_new\<lparr>presence := Presence_new 0.5 0.5\<lparr>radius := 0.6, targetRadius := 0.6\<rparr>,
                gameTime := 180 - 1 / 60, clarity := 0.152, sustainableThreshold := 0.1\<rparr>))
     \<ge> winTime Game_new \<and>
   clarity (fixedUpdate (1 / 60) 1
      (Game_new\<lparr>presence := Presence_new 0.5 0.5\<lparr>radius := 0.6, targetRadius := 0.6\<rparr>,
                gameTime := 180 - 1 / 60, clarity := 0.152, sustainableThreshold := 0.1\<rparr>))
     \<le> failureClarity Game_new \<and>
   state (fixedUpdate (1 / 60) 1
      (Game_new\<lparr>presence := Presence_new 0.5 0.5\<lparr>radius := 0.6, targetRadius := 0.6\<rparr>,
                gameTime := 180 - 1 / 60, clarity := 0.152, sustainableThreshold := 0.1\<rparr>))
     = FAILED"
  by (simp add: fixedUpdate_defs Presence_defs Game_new_def Presence_new_def Let_def)

text \<open>
  C6: for a presence whose radius is within its bounds, \<open>getOverextension\<close> is 0 when the
  radius is at most the threshold and \<open>min 1 ((radius - threshold) / (maxRadius -
  threshold))\<close> otherwise; it is 0 when the threshold is \<open>maxRadius\<close>, and 1 when the
  radius is \<open>maxRadius\<close> and the threshold is \<open>minRadius\<close> (the two bounds being
  distinct, as the constructor makes them: were they equal, the case before would apply).
\<close>

theorem getOverextension_spec:
  assumes "minRadius p \<le> radius p" and "radius p \<le> maxRadius p"
  shows "(radius p \<le> th \<longrightarrow> getOverextension p th = 0) \<and>
         (th < radius p \<longrightarrow>
            getOverextension p th = min 1 ((radius p - th) / (maxRadius p - th))) \<and>
         (th = maxRadius p \<longrightarrow> getOverextension p th = 0) \<and>
         (radius p = maxRadius p \<and> th = minRadius p \<and> minRadius p < maxRadius p \<longrightarrow>
            getOverextension p th = 1)"
  using assms by (auto simp: getOverextension_def Let_def)

theorem getOverextension_spec_witness:
  "minRadius (Presence_new 0 0\<lparr>radius := 0.6\<rparr>) \<le> radius (Presence_new 0 0\<lparr>radius := 0.6\<rparr>) \<and>
   radius (Presence_new 0 0\<lparr>radius := 0.6\<rparr>) \<le> maxRadius (Presence_new 0 0\<lparr>radius := 0.6\<rparr>) \<and>
   getOverextension (Presence_new 0 0\<lparr>radius := 0.6\<rparr>) 0.05 = 1 \<and>
   getOverextension (Presence_new 0 0\<lparr>radius := 0.6\<rparr>) 0.6 = 0 \<and>
   getOverextension (Presence_new 0 0\<lparr>radius := 0.6\<rparr>) 0.7 = 0 \<and>
   getOverextension (Presence_new 0 0\<lparr>radius := 0.6\<rparr>) 0.4 = min 1 ((0.6 - 0.4) / (0.6 - 0.4))"
  using getOverextension_spec [of "Presence_new 0 0\<lparr>radius := 0.6\<rparr>" "0.05"]
    getOverextension_spec [of "Presence_new 0 0\<lparr>radius := 0.6\<rparr>" "0.6"]
    getOverextension_spec [of "Presence_new 0 0\<lparr>radius := 0.6\<rparr>" "0.7"]
    getOverextension_spec [of "Presence_new 0 0\<lparr>radius := 0.6\<rparr>" "0.4"]
  by (simp add: Presence_new_def)

text \<open>
  In exact arithmetic, for \<open>dt \<ge> 0\<close> and a smoothing constant that is not negative, the
  smoothing step is an asymptotic approach: the new radius lies between the old radius
  and the clamped target, and is not the target unless the old one was.
\<close>

lemma Presence_update_exact:
  assumes "0 \<le> dt" and "0 \<le> radiusSmoothness p"
  shows "let T = targetRadius p +
                 (if expandDirection p > 0 then expandRate p * expandDirection p * dt
                  else if expandDirection p < 0 then retractRate p * expandDirection p * dt
                  else 0);
             T' = max (minRadius p) (min (maxRadius p) T);
             p' = Presence_update dt p
         in p' = p\<lparr>targetRadius := T',
                    radius := radius p +
                      (T' - radius p) * (1 - exp (- radiusSmoothness p * dt))\<rparr> \<and>
            (minRadius p \<le> maxRadius p \<longrightarrow> minRadius p \<le> T' \<and> T' \<le> maxRadius p) \<and>
            min (radius p) T' \<le> radius p' \<and> radius p' \<le> max (radius p) T' \<and>
            (radius p \<noteq> T' \<longrightarrow> radius p' \<noteq> T')"
proof -
  define T where "T = targetRadius p +
                 (if expandDirection p > 0 then expandRate p * expandDirection p * dt
                  else if expandDirection p < 0 then retractRate p * expandDirection p * dt
                  else 0)"
  define T' where "T' = max (minRadius p) (min (maxRadius p) T)"
  define t where "t = 1 - exp (- radiusSmoothness p * dt)"
  have t: "0 \<le> t" "t < 1" using smooth_factor [OF assms] by (simp_all add: t_def)
  have eq: "Presence_update dt p =
              p\<lparr>targetRadius := T', radius := radius p + (T' - radius p) * t\<rparr>"
    by (simp add: Presence_update_def smoothRadius_def clampTarget_def advanceTarget_def
        T'_def T_def t_def Let_def)
  have r: "radius (Presence_update dt p) = radius p + (T' - radius p) * t"
    by (simp add: eq)
  have cl: "minRadius p \<le> maxRadius p \<longrightarrow> minRadius p \<le> T' \<and> T' \<le> maxRadius p"
    by (simp add: T'_def)
  show ?thesis
    unfolding Let_def T_def [symmetric] T'_def [symmetric] r
    using eq cl between [OF t, of "radius p" T'] by (simp add: t_def)
qed




text \<open>
  C8: on a tick whose overextension is 0 (with \<open>dt \<ge> 0\<close> and a recovery rate that is not
  negative) clarity does not decrease. With \<open>targetClarity = max clarityMinRecovery (1 -
  (gameTime / winTime) * 0.3)\<close>, where \<open>gameTime\<close> is the time the tick has just advanced
  to, clarity rises by \<open>min (clarityRecoveryRate * dt) (targetClarity - clarity)\<close> when it
  is below \<open>targetClarity\<close> and is unchanged when it is at or above it.
\<close>

theorem clarity_recovers:
  assumes "overextensionOfTick dt direction g = 0"
    and "0 \<le> dt" and "0 \<le> clarityRecoveryRate g" and "winTime g \<noteq> 0"
  shows "let targetClarity =
               max (clarityMinRecovery g) (1 - ((gameTime g + dt) / winTime g) * 0.3);
             g' = fixedUpdate dt direction g
         in clarity g \<le> clarity g' \<and>
            (clarity g < targetClarity \<longrightarrow>
               clarity g' =
                 clarity g + min (clarityRecoveryRate g * dt) (targetClarity - clarity g)) \<and>
            (clarity g \<ge> targetClarity \<longrightarrow> clarity g' = clarity g)"
proof -
  have "0 \<le> clarityRecoveryRate g * dt" using assms by simp
  then show ?thesis
    using assms(1)
    by (auto simp: overextensionOfTick_def fixedUpdate_defs Let_def min_def)
qed

theorem clarity_recovers_witness:
  "overextensionOfTick (1 / 60) 0 (Game_new\<lparr>clarity := 0.5\<rparr>) = 0 \<and>
   overextensionOfTick (1 / 60) 0 Game_new = 0 \<and>
   (0::real) \<le> 1 / 60 \<and> 0 \<le> clarityRecoveryRate Game_new \<and> winTime Game_new \<noteq> 0 \<and>
   clarity (fixedUpdate (1 / 60) 0 (Game_new\<lparr>clarity := 0.5\<rparr>)) = 0.5025 \<and>
   clarity (fixedUpdate (1 / 60) 0 Game_new) = 1"
proof -
  have h: "overextensionOfTick (1 / 60) 0 (Game_new\<lparr>clarity := 0.5\<rparr>) = 0"
    by (simp add: overextensionOfTick_def fixedUpdate_defs Presence_defs Game_new_def
        Presence_new_def Let_def)
  have h': "overextensionOfTick (1 / 60) 0 Game_new = 0"
    by (simp add: overextensionOfTick_def fixedUpdate_defs Presence_defs Game_new_def
        Presence_new_def Let_def)
  show ?thesis
    using h h' clarity_recovers [OF h] clarity_recovers [OF h']
    by (simp add: Game_new_def Let_def)
qed

subsection \<open>Claims about \<^verbatim>\<open>update\<close> and \<^verbatim>\<open>reset\<close>\<close>

text \<open>
  C3: \<open>update\<close> on a game whose state is \<open>WON\<close> or \<open>FAILED\<close> returns the game as it is,
  every field of the controller and of its presence included, whatever \<open>dt\<close> (nonnegative
  or not) and the direction are.
\<close>

theorem update_terminal_noop:
  "state g \<noteq> PLAYING \<Longrightarrow> Game_update dt direction g = Some g"
  by (simp add: Game_update_def)

theorem update_terminal_noop_witness:
  "state (Game_new\<lparr>state := WON\<rparr>) \<noteq> PLAYING \<and>
   Game_update (1 / 10) 1 (Game_new\<lparr>state := WON\<rparr>) = Some (Game_new\<lparr>state := WON\<rparr>)"
  using update_terminal_noop [of "Game_new\<lparr>state := WON\<rparr>" "1 / 10" 1] by simp



text \<open>
  C5, at a failing input: a new game, one call \<open>update(0.01, 0)\<close>, which is too short for
  a tick and leaves 0.01 in the accumulator, then \<open>reset()\<close>. \<open>reset\<close> assigns the
  presence, the state, \<open>time\<close>, \<open>gameTime\<close>, \<open>clarity\<close> and \<open>sustainableThreshold\<close>, not
  the accumulator, which the constructor sets to 0: the game after \<open>reset\<close> is a new game
  but for its accumulator, still 0.01.
\<close>

theorem reset_keeps_accumulator:
  "map_option reset (Game_update 0.01 0 Game_new) = Some (Game_new\<lparr>accumulator := 0.01\<rparr>) \<and>
   Game_new\<lparr>accumulator := 0.01\<rparr> \<noteq> Game_new"
  by (simp add: Game_update_def drain_stop Game_new_def reset_def)

subsection \<open>What every tick keeps\<close>

lemma Presence_update_target:
  "targetRadius (Presence_update dt p) =
     max (minRadius p) (min (maxRadius p) (targetRadius (advanceTarget dt p)))"
  by (simp add: Presence_update_def smoothRadius_def clampTarget_def advanceTarget_def Let_def)

lemma Presence_update_radius:
  "radius (Presence_update dt p) =
     radius p + (targetRadius (Presence_update dt p) - radius p) *
       (1 - exp (- radiusSmoothness p * dt))"
  by (simp add: Presence_update_def smoothRadius_def clampTarget_def advanceTarget_def Let_def)

lemma Presence_update_radius_range:
  assumes "0 \<le> dt" and "0 \<le> radiusSmoothness p"
    and "minRadius p \<le> radius p" and "radius p \<le> maxRadius p"
  shows "minRadius p \<le> radius (Presence_update dt p) \<and>
         radius (Presence_update dt p) \<le> maxRadius p"
proof -
  define T where "T = targetRadius (Presence_update dt p)"
  define t where "t = 1 - exp (- radiusSmoothness p * dt)"
  have le: "minRadius p \<le> maxRadius p" using assms(3,4) by linarith
  have T: "minRadius p \<le> T" "T \<le> maxRadius p"
    using le by (simp_all add: T_def Presence_update_target)
  have t: "0 \<le> t" "t < 1" using smooth_factor [OF assms(1,2)] by (simp_all add: t_def)
  have r: "radius (Presence_update dt p) = radius p + (T - radius p) * t"
    unfolding T_def t_def by (rule Presence_update_radius)
  have "min (radius p) T \<le> radius p + (T - radius p) * t"
    and "radius p + (T - radius p) * t \<le> max (radius p) T"
    using between [OF t, of "radius p" T] by blast+
  then show ?thesis unfolding r using T assms(3,4) by linarith
qed

lemma updateClarity_kept [simp]:
  "gameTime (updateClarity dt g) = gameTime g"
  "sustainableThreshold (updateClarity dt g) = sustainableThreshold g"
  "presence (updateClarity dt g) = presence g"
  by (simp_all add: updateClarity_def Let_def)

lemma updateClarity_range:
  assumes "0 \<le> clarity g" and "clarity g \<le> 1" and "0 \<le> dt"
    and "0 \<le> clarityDecayRate g" and "0 \<le> clarityRecoveryRate g"
    and "clarityMinRecovery g \<le> 1" and "0 \<le> gameTime g" and "0 < winTime g"
  shows "0 \<le> clarity (updateClarity dt g) \<and> clarity (updateClarity dt g) \<le> 1"
proof -
  define ov where "ov = getOverextension (presence g) (sustainableThreshold g)"
  define tc where "tc = max (clarityMinRecovery g) (1 - (gameTime g / winTime g) * 0.3)"
  have "0 \<le> gameTime g / winTime g" using assms(7,8) by simp
  then have tc: "tc \<le> 1" using assms(6) by (simp add: tc_def)
  have rec: "0 \<le> clarityRecoveryRate g * dt" using assms(3,5) by simp
  show ?thesis
  proof (cases "0 < ov")
    case True
    then have "0 \<le> clarityDecayRate g * ov * dt" using assms(3,4) by simp
    moreover have "clarity (updateClarity dt g) = max 0 (clarity g - clarityDecayRate g * ov * dt)"
      using True by (simp add: updateClarity_def ov_def Let_def)
    ultimately show ?thesis using assms(1,2) by simp
  next
    case False
    then have "clarity (updateClarity dt g) =
        (if clarity g < tc then min tc (clarity g + clarityRecoveryRate g * dt) else clarity g)"
      by (simp add: updateClarity_def ov_def tc_def Let_def)
    then show ?thesis using assms(1,2) tc rec by (simp add: min_def)
  qed
qed

lemma fixedUpdate_clarity:
  "clarity (fixedUpdate dt d g) =
     clarity (updateClarity dt (decayThreshold dt (updatePresence dt d (advanceGameTime dt g))))"
  by (simp add: fixedUpdate_def)

lemma pre_clarity_fields [simp]:
  "clarity (decayThreshold dt (updatePresence dt d (advanceGameTime dt g))) = clarity g"
  "gameTime (decayThreshold dt (updatePresence dt d (advanceGameTime dt g))) = gameTime g + dt"
  "winTime (decayThreshold dt (updatePresence dt d (advanceGameTime dt g))) = winTime g"
  "clarityDecayRate (decayThreshold dt (updatePresence dt d (advanceGameTime dt g))) = clarityDecayRate g"
  "clarityRecoveryRate (decayThreshold dt (updatePresence dt d (advanceGameTime dt g))) = clarityRecoveryRate g"
  "clarityMinRecovery (decayThreshold dt (updatePresence dt d (advanceGameTime dt g))) = clarityMinRecovery g"
  by (simp_all add: decayThreshold_def updatePresence_def advanceGameTime_def)

lemma fixedUpdate_clarity_range:
  assumes "0 \<le> clarity g" and "clarity g \<le> 1" and "0 \<le> dt"
    and "0 \<le> clarityDecayRate g" and "0 \<le> clarityRecoveryRate g"
    and "clarityMinRecovery g \<le> 1" and "0 \<le> gameTime g" and "0 < winTime g"
  shows "0 \<le> clarity (fixedUpdate dt d g) \<and> clarity (fixedUpdate dt d g) \<le> 1"
  unfolding fixedUpdate_clarity
  using assms by (intro updateClarity_range) simp_all

lemma in_range_tick:
  assumes c: "Game_constants g" and r: "in_range g"
  shows "in_range (tick d g)"
proof -
  have k: "winTime g = 180" "thresholdDecayRate g = 0.008" "clarityRecoveryRate g = 0.15"
    "clarityDecayRate g = 0.25" "clarityMinRecovery g = 0.3" "fixedDt g = 1 / 60"
    "minRadius (presence g) = 0.05" "maxRadius (presence g) = 0.6"
    "radiusSmoothness (presence g) = 8"
    using c by (simp_all add: Game_constants_def Presence_constants_def)
  have i: "minRadius (presence g) \<le> radius (presence g)"
    "radius (presence g) \<le> maxRadius (presence g)"
    "0 \<le> clarity g" "clarity g \<le> 1"
    "0.1 \<le> sustainableThreshold g" "sustainableThreshold g \<le> 1" "0 \<le> gameTime g"
    using r by (simp_all add: in_range_def)
  have rad: "minRadius (setExpandDirection d (presence g))
               \<le> radius (Presence_update (fixedDt g) (setExpandDirection d (presence g))) \<and>
             radius (Presence_update (fixedDt g) (setExpandDirection d (presence g)))
               \<le> maxRadius (setExpandDirection d (presence g))"
    using i(1,2) by (intro Presence_update_radius_range) (simp_all add: k)
  have cl: "0 \<le> clarity (fixedUpdate (fixedDt g) d g) \<and> clarity (fixedUpdate (fixedDt g) d g) \<le> 1"
    using i(3,4,7) by (intro fixedUpdate_clarity_range) (simp_all add: k)
  have th: "0.1 \<le> max 0.1 (sustainableThreshold g - thresholdDecayRate g * fixedDt g) \<and>
            max 0.1 (sustainableThreshold g - thresholdDecayRate g * fixedDt g) \<le> 1"
    using i(5,6) by (simp add: k)
  have gt: "0 \<le> gameTime g + fixedDt g" using i(7) by (simp add: k)
  show ?thesis
    unfolding in_range_def using rad cl th gt by simp
qed

lemma monotone_tick:
  assumes c: "Game_constants g" and r: "in_range g"
  shows "sustainableThreshold (tick d g) \<le> sustainableThreshold g \<and>
         gameTime g \<le> gameTime (tick d g)"
proof -
  have k: "thresholdDecayRate g = 0.008" "fixedDt g = 1 / 60"
    using c by (simp_all add: Game_constants_def)
  have "0.1 \<le> sustainableThreshold g" using r by (simp add: in_range_def)
  then show ?thesis by (simp add: k)
qed

lemma ticks_with_good:
  "Game_constants g \<Longrightarrow> in_range g \<Longrightarrow>
   Game_constants (ticks_with ds g) \<and> in_range (ticks_with ds g) \<and>
   sustainableThreshold (ticks_with ds g) \<le> sustainableThreshold g \<and>
   gameTime g \<le> gameTime (ticks_with ds g)"
proof (induction ds arbitrary: g)
  case Nil
  then show ?case by simp
next
  case (Cons d ds)
  have c: "Game_constants (tick d g)" using Cons.prems(1) by (simp only: Game_constants_tick)
  have r: "in_range (tick d g)" using Cons.prems by (rule in_range_tick)
  have m: "sustainableThreshold (tick d g) \<le> sustainableThreshold g"
    "gameTime g \<le> gameTime (tick d g)"
    using monotone_tick [OF Cons.prems, of d] by blast+
  from Cons.IH [OF c r] m show ?case by (simp del: tick_kept)
qed

lemma update_good:
  assumes c: "Game_constants g" and r: "in_range g"
  shows "\<exists>g'. Game_update dt d g = Some g' \<and> Game_constants g' \<and> in_range g' \<and>
           sustainableThreshold g' \<le> sustainableThreshold g \<and> gameTime g \<le> gameTime g'"
proof (cases "state g = PLAYING")
  case False
  then show ?thesis using c r by (simp add: Game_update_def)
next
  case True
  define g0 where "g0 = g\<lparr>time := time g + dt, accumulator := accumulator g + dt\<rparr>"
  have pos: "0 < fixedDt g" using c by (simp add: Game_constants_def)
  have c0: "Game_constants g0" using c by (simp add: g0_def Game_constants_def)
  have r0: "in_range g0" using r by (simp add: g0_def in_range_def)
  have f0: "sustainableThreshold g0 = sustainableThreshold g" "gameTime g0 = gameTime g"
    by (simp_all add: g0_def)
  have "Game_update dt d g =
     Some (ticks_with (replicate (nat \<lfloor>(accumulator g + dt) / fixedDt g\<rfloor>) d) g0)"
    unfolding g0_def using pos True by (rule update_unroll)
  then show ?thesis using ticks_with_good [OF c0 r0] unfolding f0 by blast
qed

lemma run_good:
  "Game_constants g \<Longrightarrow> in_range g \<Longrightarrow>
   \<exists>g'. run us g = Some g' \<and> Game_constants g' \<and> in_range g' \<and>
     sustainableThreshold g' \<le> sustainableThreshold g \<and> gameTime g \<le> gameTime g'"
proof (induction us arbitrary: g)
  case Nil
  then show ?case by simp
next
  case (Cons u us)
  obtain dt d where u: "u = (dt, d)" by (cases u)
  obtain g1 where g1: "Game_update dt d g = Some g1" "Game_constants g1" "in_range g1"
    "sustainableThreshold g1 \<le> sustainableThreshold g" "gameTime g \<le> gameTime g1"
    using update_good [OF Cons.prems, of dt d] by blast
  obtain g2 where g2: "run us g1 = Some g2" "Game_constants g2" "in_range g2"
    "sustainableThreshold g2 \<le> sustainableThreshold g1" "gameTime g1 \<le> gameTime g2"
    using Cons.IH [OF g1(2,3)] by blast
  have "run (u # us) g = Some g2" by (simp add: u g1(1) g2(1))
  then show ?case using g1(4,5) g2(2-5) by auto
qed

lemma Game_new_good: "Game_constants Game_new" "in_range Game_new"
  by (simp_all add: Game_new_def Presence_new_def Game_constants_def Presence_constants_def in_range_def)

lemma run_append:
  "run (us @ vs) g = (case run us g of None \<Rightarrow> None | Some g' \<Rightarrow> run vs g')"
  by (induction us arbitrary: g) (auto split: option.splits)

lemma ticks_with_append: "ticks_with (ds @ es) g = ticks_with es (ticks_with ds g)"
  by (induction ds arbitrary: g) simp_all

lemma ticks_with_fixed [simp]:
  "fixedDt (ticks_with ds g) = fixedDt g" "winTime (ticks_with ds g) = winTime g"
  by (induction ds arbitrary: g) simp_all

lemma ticks_with_gameTime:
  "gameTime (ticks_with ds g) = gameTime g + real (length ds) * fixedDt g"
  by (induction ds arbitrary: g) (simp_all add: algebra_simps)

lemma tick_terminal: "winTime g \<le> gameTime g + fixedDt g \<Longrightarrow> state (tick d g) \<noteq> PLAYING"
  by (simp add: fixedUpdate_defs Let_def)

subsection \<open>Claims about sequences of calls\<close>

text \<open>
  C4: every sequence of \<open>update\<close> calls with \<open>dt \<ge> 0\<close> and a direction in \<open>[-1, 1]\<close>,
  started on a new game, returns, and in the game it returns \<open>minRadius \<le> radius \<le>
  maxRadius\<close>, \<open>0 \<le> clarity \<le> 1\<close> and \<open>0.1 \<le> sustainableThreshold \<le> 1\<close>.
\<close>

theorem update_keeps_ranges:
  assumes "list_all (\<lambda>(dt, direction). 0 \<le> dt \<and> - 1 \<le> direction \<and> direction \<le> 1) us"
  shows "\<exists>g. run us Game_new = Some g \<and>
           minRadius (presence g) \<le> radius (presence g) \<and>
           radius (presence g) \<le> maxRadius (presence g) \<and>
           0 \<le> clarity g \<and> clarity g \<le> 1 \<and>
           0.1 \<le> sustainableThreshold g \<and> sustainableThreshold g \<le> 1"
  using run_good [OF Game_new_good, of us] unfolding in_range_def by blast

theorem update_keeps_ranges_witness:
  "list_all (\<lambda>(dt, direction). (0::real) \<le> dt \<and> - 1 \<le> direction \<and> direction \<le> (1::real))
     [(0.1, 1), (0.05, - 1), (0, 0.5 :: real)] \<and>
   (\<exists>g. run [(0.1, 1), (0.05, - 1), (0, 0.5)] Game_new = Some g \<and>
           minRadius (presence g) \<le> radius (presence g) \<and>
           radius (presence g) \<le> maxRadius (presence g) \<and>
           0 \<le> clarity g \<and> clarity g \<le> 1 \<and>
           0.1 \<le> sustainableThreshold g \<and> sustainableThreshold g \<le> 1)"
proof -
  have h: "list_all (\<lambda>(dt, direction). (0::real) \<le> dt \<and> - 1 \<le> direction \<and> direction \<le> (1::real))
     [(0.1, 1), (0.05, - 1), (0, 0.5 :: real)]"
    by simp
  from h update_keeps_ranges [OF h] show ?thesis by (rule conjI)
qed

text \<open>
  C9: along every sequence of \<open>update\<close> calls with \<open>dt \<ge> 0\<close> started on a new game (no
  \<open>reset\<close> among them), from any point \<open>g\<close> of the sequence to any later point \<open>g'\<close>,
  \<open>sustainableThreshold\<close> has not increased and \<open>gameTime\<close> has not decreased.
\<close>

theorem threshold_and_gameTime_monotone:
  assumes "list_all (\<lambda>(dt, direction). 0 \<le> dt) us"
    and "list_all (\<lambda>(dt, direction). 0 \<le> dt) vs"
  shows "\<exists>g g'. run us Game_new = Some g \<and> run vs g = Some g' \<and>
           run (us @ vs) Game_new = Some g' \<and>
           sustainableThreshold g' \<le> sustainableThreshold g \<and> gameTime g \<le> gameTime g'"
proof -
  obtain g where g: "run us Game_new = Some g" "Game_constants g" "in_range g"
    using run_good [OF Game_new_good, of us] by blast
  obtain g' where g': "run vs g = Some g'"
    "sustainableThreshold g' \<le> sustainableThreshold g" "gameTime g \<le> gameTime g'"
    using run_good [OF g(2,3), of vs] by blast
  have "run (us @ vs) Game_new = Some g'" by (simp add: run_append g(1) g'(1))
  with g(1) g' show ?thesis by blast
qed

theorem threshold_and_gameTime_monotone_witness:
  "list_all (\<lambda>(dt, direction). (0::real) \<le> dt) [(0.1, 1 :: real)] \<and>
   list_all (\<lambda>(dt, direction). (0::real) \<le> dt) [(0.05, - 1 :: real), (0.1, 0)] \<and>
   (\<exists>g g'. run [(0.1, 1)] Game_new = Some g \<and> run [(0.05, - 1), (0.1, 0)] g = Some g' \<and>
           run ([(0.1, 1)] @ [(0.05, - 1), (0.1, 0)]) Game_new = Some g' \<and>
           sustainableThreshold g' \<le> sustainableThreshold g \<and> gameTime g \<le> gameTime g')"
proof -
  have h1: "list_all (\<lambda>(dt, direction). (0::real) \<le> dt) [(0.1, 1 :: real)]" by simp
  have h2: "list_all (\<lambda>(dt, direction). (0::real) \<le> dt) [(0.05, - 1 :: real), (0.1, 0)]"
    by simp
  from h1 h2 threshold_and_gameTime_monotone [OF h1 h2] show ?thesis by blast
qed

text \<open>
  A tick does not look at the state it starts from. Two ticks with direction 1 on a game
  in play at full radius over the floor of the threshold, one tick before \<open>winTime\<close>,
  with a clarity of 0.156: the first ends in \<open>WON\<close> with a clarity above 0.15, the
  second lowers the clarity below 0.15 and ends in \<open>FAILED\<close>.
\<close>

lemma won_overwritten_by_failed:
  "state (Game_new\<lparr>presence := Presence_new 0.5 0.5\<lparr>radius := 0.6, targetRadius := 0.6\<rparr>,
      gameTime := 180 - 1 / 60, clarity := 0.156, sustainableThreshold := 0.1\<rparr>) = PLAYING \<and>
   state (tick 1 (Game_new\<lparr>presence := Presence_new 0.5 0.5\<lparr>radius := 0.6, targetRadius := 0.6\<rparr>,
      gameTime := 180 - 1 / 60, clarity := 0.156, sustainableThreshold := 0.1\<rparr>)) = WON \<and>
   state (tick 1 (tick 1 (Game_new\<lparr>presence := Presence_new 0.5 0.5\<lparr>radius := 0.6, targetRadius := 0.6\<rparr>,
      gameTime := 180 - 1 / 60, clarity := 0.156, sustainableThreshold := 0.1\<rparr>))) = FAILED"
  by (simp add: tick_def fixedUpdate_defs Presence_defs Game_new_def Presence_new_def Let_def)

text \<open>
  What \<open>reset\<close> does restore: on a game with the constants of the constructor, every field
  but the accumulator.
\<close>

lemma reset_restores_all_but_accumulator:
  "Game_constants g \<Longrightarrow> reset g = Game_new\<lparr>accumulator := accumulator g\<rparr>"
  by (cases g) (simp add: reset_def Game_new_def Game_constants_def)

text \<open>
  C2, at a failing input: a new game and the one call \<open>update(181, 0)\<close>. The loop of
  \<open>update\<close> tests the accumulator only, not the state, so the call runs all of its 10860
  ticks. After the first 10800 of them \<open>gameTime\<close> is 180 and the state is no longer
  \<open>PLAYING\<close>; the remaining 60 ticks still run and the call returns with \<open>gameTime\<close> at
  181, mutated after the transition.
\<close>

theorem update_runs_past_terminal:
  "Game_update 181 0 Game_new =
     Some (ticks_with (replicate 60 0)
            (ticks_with (replicate 10800 0) (Game_new\<lparr>time := 181, accumulator := 181\<rparr>))) \<and>
   state (ticks_with (replicate 10800 0) (Game_new\<lparr>time := 181, accumulator := 181\<rparr>))
     \<noteq> PLAYING \<and>
   gameTime (ticks_with (replicate 10800 0) (Game_new\<lparr>time := 181, accumulator := 181\<rparr>))
     = 180 \<and>
   gameTime (ticks_with (replicate 60 0)
      (ticks_with (replicate 10800 0) (Game_new\<lparr>time := 181, accumulator := 181\<rparr>))) = 181"
proof -
  define g0 where "g0 = Game_new\<lparr>time := 181, accumulator := 181\<rparr>"
  have f: "fixedDt g0 = 1 / 60" "winTime g0 = 180" "gameTime g0 = 0"
    by (simp_all add: g0_def Game_new_def)
  have "(accumulator Game_new + 181) / fixedDt Game_new = 10860"
    by (simp add: Game_new_def)
  then have n: "nat \<lfloor>(accumulator Game_new + 181) / fixedDt Game_new\<rfloor> = 10800 + 60"
    by (simp only: floor_numeral nat_numeral)
  have g: "Game_new\<lparr>time := time Game_new + 181, accumulator := accumulator Game_new + 181\<rparr>
           = g0"
    by (simp add: g0_def Game_new_def)
  have h: "0 < fixedDt Game_new" "state Game_new = PLAYING"
    by (simp_all add: Game_new_def)
  have u: "Game_update 181 0 Game_new =
     Some (ticks_with (replicate 60 0) (ticks_with (replicate 10800 0) g0))"
    using update_unroll [OF h, of 181 0] unfolding n g
    by (simp only: replicate_add ticks_with_append)
  have t1: "gameTime (ticks_with (replicate 10800 0) g0) = 180"
    by (simp add: ticks_with_gameTime f)
  have t2: "gameTime (ticks_with (replicate 60 0) (ticks_with (replicate 10800 0) g0)) = 181"
    by (simp add: ticks_with_gameTime f)
  have s: "replicate 10800 (0::real) = replicate 10799 0 @ [0]"
  proof -
    have "replicate (10799 + 1) (0::real) = replicate 10799 0 @ replicate 1 0"
      by (rule replicate_add)
    then show ?thesis by simp
  qed
  have "gameTime (ticks_with (replicate 10799 0) g0) + fixedDt (ticks_with (replicate 10799 0) g0)
          = 180"
    by (simp add: ticks_with_gameTime f)
  then have "state (tick 0 (ticks_with (replicate 10799 0) g0)) \<noteq> PLAYING"
    by (intro tick_terminal) (simp add: f)
  then have t3: "state (ticks_with (replicate 10800 0) g0) \<noteq> PLAYING"
    unfolding s ticks_with_append by simp
  from u t1 t2 t3 show ?thesis unfolding g0_def by blast
qed

end
